theory Spec2Isabelle
  imports Complex_Main "HOL-Library.AList" "HOL-Library.Char_ord" "HOL-Library.List_Lexorder"
begin

section \<open>Decoded documents\<close>

text \<open>
  A schema is a decoded JSON/YAML document: Go's \<open>map[string]interface{}\<close>, whose values
  are nil, bool, int64, float64, string, \<open>[]interface{}\<close> or again a map. A Go map is an
  association list read with \<open>map_of\<close>; the nil map is \<open>None\<close>. A map value held in an
  \<open>interface{}\<close> may be the nil map (\<open>CombineSchemas\<close> stores such values), so
  \<open>JObject\<close> carries the option too. Go ranges over a map in an unspecified order; the
  model ranges in the order of the list, and every theorem below holds for every list.
\<close>

datatype json =
    JNull
  | JBool bool
  | JInt int
  | JFloat real
  | JString string
  | JArray "json list"
  | JObject "(string \<times> json) list option"

type_synonym gomap = "(string \<times> json) list option"

definition keys :: "gomap \<Rightarrow> string list" where
  "keys m = (case m of None \<Rightarrow> [] | Some kvs \<Rightarrow> map fst kvs)"

subsection \<open>The accessors of \<open>unstructured\<close>, called with one field\<close>

text \<open>
  Each accessor of k8s.io/apimachinery returns (value, found, error); every call site drops
  the error. The model returns \<open>Some value\<close> when found is true. A key that is missing and
  a value of the wrong shape both give the zero value and found = false.
\<close>

definition NestedFieldNoCopy :: "gomap \<Rightarrow> string \<Rightarrow> json option" where
  "NestedFieldNoCopy obj field = (case obj of None \<Rightarrow> None | Some kvs \<Rightarrow> map_of kvs field)"

definition NestedBool :: "gomap \<Rightarrow> string \<Rightarrow> bool option" where
  "NestedBool obj field =
     (case NestedFieldNoCopy obj field of Some (JBool b) \<Rightarrow> Some b | _ \<Rightarrow> None)"

definition NestedString :: "gomap \<Rightarrow> string \<Rightarrow> string option" where
  "NestedString obj field =
     (case NestedFieldNoCopy obj field of Some (JString s) \<Rightarrow> Some s | _ \<Rightarrow> None)"

fun stringsOf :: "json list \<Rightarrow> string list option" where
  "stringsOf [] = Some []"
| "stringsOf (JString s # vs) = (case stringsOf vs of None \<Rightarrow> None | Some ss \<Rightarrow> Some (s # ss))"
| "stringsOf (_ # vs) = None"

definition NestedStringSlice :: "gomap \<Rightarrow> string \<Rightarrow> string list option" where
  "NestedStringSlice obj field =
     (case NestedFieldNoCopy obj field of Some (JArray vs) \<Rightarrow> stringsOf vs | _ \<Rightarrow> None)"

text \<open>\<open>NestedMap\<close> returns a deep copy, which is the same value here.\<close>

definition NestedMap :: "gomap \<Rightarrow> string \<Rightarrow> gomap option" where
  "NestedMap obj field =
     (case NestedFieldNoCopy obj field of Some (JObject m) \<Rightarrow> Some m | _ \<Rightarrow> None)"

text \<open>The map a call site binds when it drops found: nil unless found.\<close>

definition mapOrNil :: "gomap option \<Rightarrow> gomap" where
  "mapOrNil r = (case r of None \<Rightarrow> None | Some m \<Rightarrow> m)"

fun mapsOf :: "json list \<Rightarrow> gomap list option" where
  "mapsOf [] = Some []"
| "mapsOf (JObject m # vs) = (case mapsOf vs of None \<Rightarrow> None | Some ms \<Rightarrow> Some (m # ms))"
| "mapsOf (_ # vs) = None"

text \<open>
  Modelled from the spec: \<open>NestedMapSlice\<close> is a helper of this package whose source is not
  among the files. Section 3 reads every field defensively, "treated as absent if of the
  wrong shape or missing": the list of maps under the key, found only when the value is a
  list whose members are all maps.
\<close>

definition NestedMapSlice :: "gomap \<Rightarrow> string \<Rightarrow> gomap list option" where
  "NestedMapSlice obj field =
     (case NestedFieldNoCopy obj field of Some (JArray vs) \<Rightarrow> mapsOf vs | _ \<Rightarrow> None)"

text \<open>
  Modelled from the spec: \<open>toInterfaceSlice\<close> is a helper of this package whose source is
  not among the files. The comment of \<open>CombineSchemas\<close> says the combined \<open>required\<close> field
  is of type \<open>[]interface{}\<close>, not \<open>[]string\<close>: the same strings, each as a value.
\<close>

definition toInterfaceSlice :: "string list \<Rightarrow> json" where
  "toInterfaceSlice ss = JArray (map JString ss)"

section \<open>Constants of schema.go\<close>

definition Boolean :: string where [simp]: "Boolean = ''boolean''"
definition Integer :: string where [simp]: "Integer = ''integer''"
definition Number :: string where [simp]: "Number = ''number''"
definition String :: string where [simp]: "String = ''string''"
definition Array :: string where [simp]: "Array = ''array''"
definition Object :: string where [simp]: "Object = ''object''"

definition DefaultName :: string where [simp]: "DefaultName = ''crds''"
definition anyTypeRef :: string where [simp]: "anyTypeRef = ''pulumi.json#/Any''"
definition objectMetaRef :: string where
  [simp]: "objectMetaRef = ''#/types/kubernetes:meta/v1:ObjectMeta''"
definition objectMetaToken :: string where
  [simp]: "objectMetaToken = ''kubernetes:meta/v1:ObjectMeta''"

section \<open>The schema types of the package document\<close>

text \<open>
  \<open>pschema.TypeSpec\<close>, with the fields this package sets; a nil pointer and a nil slice
  are \<open>None\<close>.
\<close>

datatype TypeSpec =
  TypeSpec (ts_Type: string) (ts_Ref: string) (ts_AdditionalProperties: "TypeSpec option")
    (ts_Items: "TypeSpec option") (ts_OneOf: "TypeSpec list option")

definition anyTypeSpec :: TypeSpec where
  "anyTypeSpec = TypeSpec [] anyTypeRef None None None"

definition arbitraryJSONTypeSpec :: TypeSpec where
  "arbitraryJSONTypeSpec = TypeSpec Object [] (Some anyTypeSpec) None None"

definition intOrStringTypeSpec :: TypeSpec where
  "intOrStringTypeSpec =
     TypeSpec [] [] None None
       (Some [TypeSpec Integer [] None None None, TypeSpec String [] None None None])"

definition isAnyType :: "TypeSpec \<Rightarrow> bool" where
  "isAnyType typeSpec = (ts_Ref typeSpec = anyTypeRef)"

text \<open>\<open>pschema.PropertySpec\<close>; \<open>Const\<close> and \<open>Default\<close> are \<open>interface{}\<close>, nil is \<open>JNull\<close>.\<close>

record PropertySpec =
  ps_TypeSpec :: TypeSpec
  ps_Description :: string
  ps_Const :: json
  ps_Default :: json

text \<open>
  A \<open>Properties\<close> field is a Go map, a reference: copying the struct that holds it shares
  the map. The maps live in a heap. \<open>emptySpec\<close> is a package variable, so its map is one
  fixed object for the whole run of the program; every other map is allocated by
  \<open>AddType\<close>.
\<close>

datatype addr = emptySpecProperties | Allocated nat

record ObjectTypeSpec =
  ot_Type :: string
  ot_Properties :: "addr option"
  ot_Required :: "string list option"
  ot_Description :: string

text \<open>\<open>pschema.ComplexTypeSpec\<close> embeds the object type; its \<open>Enum\<close> is never set.\<close>

type_synonym ComplexTypeSpec = ObjectTypeSpec

definition emptySpec :: ComplexTypeSpec where
  "emptySpec = \<lparr>ot_Type = Object, ot_Properties = Some emptySpecProperties,
                 ot_Required = None, ot_Description = []\<rparr>"

text \<open>The zero value, which reading a missing key of the registry gives.\<close>

definition zeroSpec :: ComplexTypeSpec where
  "zeroSpec = \<lparr>ot_Type = [], ot_Properties = None, ot_Required = None, ot_Description = []\<rparr>"

record state =
  types :: "string \<rightharpoonup> ComplexTypeSpec"
  heap :: "addr \<Rightarrow> (string \<rightharpoonup> PropertySpec)"
  nxt :: nat

section \<open>The Schema Combinator\<close>

definition combineProperties :: "gomap \<Rightarrow> (string \<times> json) list \<Rightarrow> (string \<times> json) list" where
  "combineProperties properties combinedProperties =
     fold (\<lambda>propertyName acc.
             AList.update propertyName (JObject (mapOrNil (NestedMap properties propertyName))) acc)
       (keys properties) combinedProperties"

fun combineLoop ::
  "bool \<Rightarrow> gomap list \<Rightarrow> (string \<times> json) list \<Rightarrow> string list
    \<Rightarrow> (string \<times> json) list \<times> string list" where
  "combineLoop combineRequired [] combinedProperties combinedRequired =
     (combinedProperties, combinedRequired)"
| "combineLoop combineRequired (schema # schemas) combinedProperties combinedRequired =
     combineLoop combineRequired schemas
       (combineProperties (mapOrNil (NestedMap schema ''properties'')) combinedProperties)
       (if combineRequired
        then (case NestedStringSlice schema ''required'' of
                Some required \<Rightarrow> combinedRequired @ required
              | None \<Rightarrow> combinedRequired)
        else combinedRequired)"

definition CombineSchemas :: "bool \<Rightarrow> gomap list \<Rightarrow> gomap" where
  "CombineSchemas combineRequired schemas =
     (case schemas of
        [] \<Rightarrow> None
      | [schema] \<Rightarrow> schema
      | _ \<Rightarrow>
         (case combineLoop combineRequired schemas [] [] of
            (combinedProperties, combinedRequired) \<Rightarrow>
              Some ([(''type'', JString Object),
                     (''properties'', JObject (Some combinedProperties))] @
                    (if combineRequired
                     then [(''required'', toInterfaceSlice combinedRequired)]
                     else []))))"

text \<open>\<open>strconv.Itoa\<close> on an index: the decimal digits.\<close>

fun Itoa :: "nat \<Rightarrow> string" where
  "Itoa n = (if n < 10 then [char_of (48 + n)] else Itoa (n div 10) @ [char_of (48 + n mod 10)])"

declare Itoa.simps [simp del]

section \<open>The Type Resolver\<close>

subsection \<open>A measure for the recursion\<close>

text \<open>
  \<open>GetTypeSpec\<close> recurses into parts of the schema and, for \<open>allOf\<close> and \<open>anyOf\<close>, into
  the schema that \<open>CombineSchemas\<close> builds, which is no part of its argument. The nesting
  depth of a document decreases in both cases.
\<close>

fun height :: "json \<Rightarrow> nat" where
  "height (JArray vs) = Suc (foldr max (map height vs) 0)"
| "height (JObject (Some kvs)) = Suc (foldr max (map (\<lambda>kv. height (snd kv)) kvs) 0)"
| "height _ = 1"

definition schemaRank :: "gomap \<Rightarrow> nat" where
  "schemaRank schema = (if schema = None then 0 else 2 * height (JObject schema) + 1)"

lemma height_pos: "1 \<le> height v"
  by (cases v rule: height.cases) simp_all

lemma foldr_max_ge: "x \<in> set xs \<Longrightarrow> f x \<le> foldr max (map f xs) (0::nat)"
  by (induction xs) (auto simp: max.coboundedI2)

lemma foldr_max_le: "(\<And>x. x \<in> set xs \<Longrightarrow> f x \<le> b) \<Longrightarrow> foldr max (map f xs) (0::nat) \<le> b"
  by (induction xs) auto

lemma height_field: "NestedFieldNoCopy obj field = Some v \<Longrightarrow> height v < height (JObject obj)"
proof (cases obj)
  case None
  assume "NestedFieldNoCopy obj field = Some v"
  with None show ?thesis by (simp add: NestedFieldNoCopy_def)
next
  case (Some kvs)
  assume "NestedFieldNoCopy obj field = Some v"
  with Some have "(field, v) \<in> set kvs"
    by (simp add: NestedFieldNoCopy_def map_of_SomeD)
  then have "height (snd (field, v)) \<le> foldr max (map (\<lambda>kv. height (snd kv)) kvs) 0"
    by (rule foldr_max_ge)
  with Some show ?thesis by simp
qed

lemma mapsOf_eq: "mapsOf vs = Some ms \<Longrightarrow> vs = map JObject ms"
  by (induction vs arbitrary: ms rule: mapsOf.induct) (auto split: option.splits)

lemma stringsOf_eq: "stringsOf vs = Some ss \<Longrightarrow> vs = map JString ss"
  by (induction vs arbitrary: ss rule: stringsOf.induct) (auto split: option.splits)

lemma height_NestedMap: "NestedMap obj field = Some m \<Longrightarrow> height (JObject m) < height (JObject obj)"
  by (auto simp: NestedMap_def split: option.splits json.splits dest: height_field)

lemma height_NestedMapSlice:
  "NestedMapSlice obj field = Some ms \<Longrightarrow> height (JArray (map JObject ms)) < height (JObject obj)"
  by (auto simp: NestedMapSlice_def split: option.splits json.splits dest!: height_field mapsOf_eq)

lemma height_NestedStringSlice:
  "NestedStringSlice obj field = Some ss \<Longrightarrow> ss \<noteq> [] \<Longrightarrow> 3 \<le> height (JObject obj)"
proof -
  assume a: "NestedStringSlice obj field = Some ss" and ne: "ss \<noteq> []"
  then obtain vs where f: "NestedFieldNoCopy obj field = Some (JArray vs)" and s: "stringsOf vs = Some ss"
    by (auto simp: NestedStringSlice_def split: option.splits json.splits)
  from s ne obtain x xs where "vs = JString x # xs"
    by (cases ss) (auto dest: stringsOf_eq)
  then have "2 \<le> height (JArray vs)" by simp
  with height_field[OF f] show ?thesis by simp
qed

lemma set_update_subset: "set (AList.update k v al) \<subseteq> insert (k, v) (set al)"
  by (induction al) auto

lemma fold_update_bound:
  assumes "\<forall>kv\<in>set acc. height (snd kv) + 2 \<le> b"
    and "ks \<noteq> [] \<longrightarrow> height (JObject properties) + 1 \<le> b"
    and "set ks \<subseteq> set (keys properties)"
  shows "\<forall>kv\<in>set (fold (\<lambda>propertyName acc.
             AList.update propertyName (JObject (mapOrNil (NestedMap properties propertyName))) acc)
           ks acc). height (snd kv) + 2 \<le> b"
  using assms
proof (induction ks arbitrary: acc)
  case Nil
  then show ?case by simp
next
  case (Cons p ps)
  let ?w = "JObject (mapOrNil (NestedMap properties p))"
  have "p \<in> set (keys properties)" using Cons.prems(3) by simp
  then obtain kv kvs where props: "properties = Some (kv # kvs)"
    by (cases properties; cases "the properties") (auto simp: keys_def)
  have "2 \<le> height (JObject properties)"
    using props height_pos[of "snd kv"] by simp
  moreover have "height ?w < height (JObject properties) \<or> height ?w = 1"
    by (cases "NestedMap properties p") (auto simp: mapOrNil_def dest: height_NestedMap)
  moreover have hb: "height (JObject properties) + 1 \<le> b" using Cons.prems(2) by simp
  ultimately have w: "height ?w + 2 \<le> b" by auto
  have acc': "\<forall>kv\<in>set (AList.update p ?w acc). height (snd kv) + 2 \<le> b"
    using set_update_subset[of p ?w acc] w Cons.prems(1) by auto
  have "\<forall>kv\<in>set (fold (\<lambda>propertyName acc.
             AList.update propertyName (JObject (mapOrNil (NestedMap properties propertyName))) acc)
           ps (AList.update p ?w acc)). height (snd kv) + 2 \<le> b"
    by (rule Cons.IH[OF acc']) (use hb Cons.prems(3) in auto)
  then show ?case by simp
qed

lemma combineProperties_bound:
  assumes "\<forall>kv\<in>set acc. height (snd kv) + 2 \<le> b"
    and "keys properties \<noteq> [] \<longrightarrow> height (JObject properties) + 1 \<le> b"
  shows "\<forall>kv\<in>set (combineProperties properties acc). height (snd kv) + 2 \<le> b"
  unfolding combineProperties_def
  by (rule fold_update_bound[OF assms subset_refl])

lemma combineLoop_bound:
  assumes "\<forall>s\<in>set schemas. height (JObject s) \<le> b"
    and "\<forall>kv\<in>set cp. height (snd kv) + 2 \<le> b"
    and "cr \<noteq> [] \<longrightarrow> 3 \<le> b"
    and "combineLoop combineRequired schemas cp cr = (cp', cr')"
  shows "(\<forall>kv\<in>set cp'. height (snd kv) + 2 \<le> b) \<and> (cr' \<noteq> [] \<longrightarrow> 3 \<le> b)"
  using assms
proof (induction schemas arbitrary: cp cr)
  case Nil
  then show ?case by auto
next
  case (Cons schema schemas)
  let ?props = "mapOrNil (NestedMap schema ''properties'')"
  let ?cp = "combineProperties ?props cp"
  let ?cr = "if combineRequired
        then (case NestedStringSlice schema ''required'' of
                Some required \<Rightarrow> cr @ required
              | None \<Rightarrow> cr)
        else cr"
  have hs: "height (JObject schema) \<le> b" using Cons.prems(1) by simp
  have hp: "keys ?props \<noteq> [] \<longrightarrow> height (JObject ?props) + 1 \<le> b"
  proof (cases "NestedMap schema ''properties''")
    case None
    then show ?thesis by (simp add: mapOrNil_def keys_def)
  next
    case (Some m)
    then show ?thesis using height_NestedMap[OF Some] hs by (simp add: mapOrNil_def)
  qed
  have 0: "\<forall>s\<in>set schemas. height (JObject s) \<le> b" using Cons.prems(1) by simp
  have 1: "\<forall>kv\<in>set ?cp. height (snd kv) + 2 \<le> b"
    by (rule combineProperties_bound[OF Cons.prems(2) hp])
  have 2: "?cr \<noteq> [] \<longrightarrow> 3 \<le> b"
    using Cons.prems(3) hs
    by (auto split: if_splits option.splits dest!: height_NestedStringSlice)
  have 3: "combineLoop combineRequired schemas ?cp ?cr = (cp', cr')"
    using Cons.prems(4) by simp
  show ?case
    by (rule Cons.IH[OF 0 1 2 3])
qed

lemma height_CombineSchemas:
  assumes "schemas \<noteq> []"
  shows "height (JObject (CombineSchemas combineRequired schemas)) \<le> height (JArray (map JObject schemas))"
proof -
  define b where "b = foldr max (map height (map JObject schemas)) 0"
  have bs: "\<forall>s\<in>set schemas. height (JObject s) \<le> b"
    unfolding b_def using foldr_max_ge[of _ "map JObject schemas" height] by auto
  obtain s0 rest where sch: "schemas = s0 # rest" using assms by (cases schemas) auto
  have b1: "1 \<le> b" using bs sch height_pos[of "JObject s0"] by auto
  show ?thesis
  proof (cases rest)
    case Nil
    then show ?thesis using sch by (simp add: CombineSchemas_def)
  next
    case (Cons s1 rest')
    obtain cp cr where loop: "combineLoop combineRequired schemas [] [] = (cp, cr)"
      by (cases "combineLoop combineRequired schemas [] []") auto
    have inv: "(\<forall>kv\<in>set cp. height (snd kv) + 2 \<le> b) \<and> (cr \<noteq> [] \<longrightarrow> 3 \<le> b)"
      by (rule combineLoop_bound[OF bs _ _ loop]) auto
    have hcp: "height (JObject (Some cp)) \<le> b"
    proof -
      have "foldr max (map (\<lambda>kv. height (snd kv)) cp) 0 \<le> b - 1"
        by (rule foldr_max_le) (use inv in force)
      then show ?thesis using b1 by simp
    qed
    have hcr: "height (toInterfaceSlice cr) \<le> b"
    proof (cases cr)
      case Nil
      then show ?thesis using b1 by (simp add: toInterfaceSlice_def)
    next
      case (Cons c cs)
      have "foldr max (map height (map JString cr)) 0 \<le> 1"
        by (rule foldr_max_le) auto
      then show ?thesis using inv Cons by (simp add: toInterfaceSlice_def)
    qed
    have "CombineSchemas combineRequired schemas =
        Some ([(''type'', JString Object), (''properties'', JObject (Some cp))] @
              (if combineRequired then [(''required'', toInterfaceSlice cr)] else []))"
      using sch Cons loop by (simp add: CombineSchemas_def)
    moreover have "\<And>x y z. height (JObject (Some [(''type'', x), (''properties'', y), (''required'', z)]))
        = Suc (max (height x) (max (height y) (height z)))"
      by simp
    moreover have "\<And>x y. height (JObject (Some [(''type'', x), (''properties'', y)]))
        = Suc (max (height x) (height y))"
      by simp
    moreover have "height (JString Object) = 1" by simp
    ultimately have "height (JObject (CombineSchemas combineRequired schemas)) \<le> Suc b"
      using hcp hcr b1 by (cases combineRequired) (simp_all del: height.simps Object_def)
    then show ?thesis by (simp add: b_def)
  qed
qed

lemma schemaRank_CombineSchemas:
  assumes "NestedMapSlice schema field = Some schemas"
  shows "schemaRank (CombineSchemas combineRequired schemas) < schemaRank schema"
proof (cases schemas)
  case Nil
  then show ?thesis using assms
    by (cases schema) (auto simp: CombineSchemas_def schemaRank_def NestedMapSlice_def NestedFieldNoCopy_def)
next
  case (Cons s ss)
  then have "height (JObject (CombineSchemas combineRequired schemas)) < height (JObject schema)"
    using height_CombineSchemas[of schemas combineRequired] height_NestedMapSlice[OF assms] by simp
  moreover have "schema \<noteq> None" using assms
    by (cases schema) (auto simp: NestedMapSlice_def NestedFieldNoCopy_def)
  ultimately show ?thesis by (simp add: schemaRank_def)
qed

lemma schemaRank_NestedMap:
  "schema \<noteq> None \<Longrightarrow> schemaRank (mapOrNil (NestedMap schema field)) < schemaRank schema"
  by (cases "NestedMap schema field")
     (auto simp: schemaRank_def mapOrNil_def dest: height_NestedMap)

fun callRank ::
  "((string \<Rightarrow> string) \<times> gomap \<times> string \<times> state
    + (string \<Rightarrow> string) \<times> gomap list \<times> string \<times> nat \<times> TypeSpec list \<times> state)
   + ((string \<Rightarrow> string) \<times> gomap \<times> string \<times> state
    + (string \<Rightarrow> string) \<times> gomap \<times> string list \<times> string \<times> addr \<times> state) \<Rightarrow> nat" where
  "callRank (Inl (Inl (Title, schema, name, st))) = schemaRank schema"
| "callRank (Inl (Inr (Title, oneOf, name, i, oneOfTypeSpecs, st))) =
     2 * height (JArray (map JObject oneOf))"
| "callRank (Inr (Inl (Title, schema, name, st))) = 2 * height (JObject schema)"
| "callRank (Inr (Inr (Title, properties, rest, name, propertySpecs, st))) =
     2 * height (JObject properties) + 1"

fun callLength ::
  "((string \<Rightarrow> string) \<times> gomap \<times> string \<times> state
    + (string \<Rightarrow> string) \<times> gomap list \<times> string \<times> nat \<times> TypeSpec list \<times> state)
   + ((string \<Rightarrow> string) \<times> gomap \<times> string \<times> state
    + (string \<Rightarrow> string) \<times> gomap \<times> string list \<times> string \<times> addr \<times> state) \<Rightarrow> nat" where
  "callLength (Inl (Inl (Title, schema, name, st))) = 0"
| "callLength (Inl (Inr (Title, oneOf, name, i, oneOfTypeSpecs, st))) = length oneOf"
| "callLength (Inr (Inl (Title, schema, name, st))) = 0"
| "callLength (Inr (Inr (Title, properties, rest, name, propertySpecs, st))) = length rest"

lemma schemaRank_le: "schemaRank schema \<le> 2 * height (JObject schema) + 1"
  by (simp add: schemaRank_def)

lemma schemaRank_Some: "schema \<noteq> None \<Longrightarrow> schemaRank schema = 2 * height (JObject schema) + 1"
  by (simp add: schemaRank_def)

lemma rank_oneOf:
  "NestedMapSlice schema field = Some oneOf \<Longrightarrow>
     2 * height (JArray (map JObject oneOf)) < schemaRank schema"
  using height_NestedMapSlice[of schema field oneOf]
  by (cases schema) (auto simp: schemaRank_def NestedMapSlice_def NestedFieldNoCopy_def)

lemma rank_found:
  "NestedMap schema field = Some m \<Longrightarrow> schemaRank m < schemaRank schema"
  using height_NestedMap[of schema field m]
  by (cases schema) (auto simp: schemaRank_def NestedMap_def NestedFieldNoCopy_def)

lemma rank_properties:
  "NestedMap schema field = Some m \<Longrightarrow> 2 * height (JObject m) + 1 < 2 * height (JObject schema)"
  using height_NestedMap[of schema field m] by simp

lemma rank_property:
  "schemaRank (mapOrNil (NestedMap properties propertyName)) < 2 * height (JObject properties) + 1"
proof (cases "NestedMap properties propertyName")
  case None
  then show ?thesis by (simp add: mapOrNil_def schemaRank_def)
next
  case (Some m)
  then show ?thesis
    using height_NestedMap[OF Some] by (simp add: mapOrNil_def schemaRank_def)
qed

subsection \<open>\<open>GetTypeSpec\<close> and \<open>AddType\<close>\<close>

text \<open>
  The registry \<open>types\<close> is a Go map that every call mutates: the state is passed in and
  returned. \<open>Title\<close> stands for \<open>strings.Title\<close> of the Go library, a parameter of the
  model. The two \<open>for\<close> loops are \<open>oneOfLoop\<close> (which leaves the function at the first
  alternative of type any) and \<open>propertiesLoop\<close> (which fills the map \<open>propertySpecs\<close>
  that \<open>AddType\<close> allocated).
\<close>

function GetTypeSpec :: "(string \<Rightarrow> string) \<Rightarrow> gomap \<Rightarrow> string \<Rightarrow> state \<Rightarrow> TypeSpec \<times> state"
  and oneOfLoop :: "(string \<Rightarrow> string) \<Rightarrow> gomap list \<Rightarrow> string \<Rightarrow> nat \<Rightarrow> TypeSpec list \<Rightarrow> state \<Rightarrow> TypeSpec \<times> state"
  and AddType :: "(string \<Rightarrow> string) \<Rightarrow> gomap \<Rightarrow> string \<Rightarrow> state \<Rightarrow> state"
  and propertiesLoop :: "(string \<Rightarrow> string) \<Rightarrow> gomap \<Rightarrow> string list \<Rightarrow> string \<Rightarrow> addr \<Rightarrow> state \<Rightarrow> state"
where
  "GetTypeSpec Title schema name st =
     (if schema = None then (anyTypeSpec, st)
      else if NestedBool schema ''x-kubernetes-int-or-string'' = Some True
      then (intOrStringTypeSpec, st)
      else (case NestedMapSlice schema ''oneOf'' of
        Some oneOf \<Rightarrow> oneOfLoop Title oneOf name 0 [] st
      | None \<Rightarrow>
      (case NestedMapSlice schema ''allOf'' of
        Some allOf \<Rightarrow> GetTypeSpec Title (CombineSchemas True allOf) name st
      | None \<Rightarrow>
      (case NestedMapSlice schema ''anyOf'' of
        Some anyOf \<Rightarrow> GetTypeSpec Title (CombineSchemas False anyOf) name st
      | None \<Rightarrow>
      if NestedBool schema ''x-kubernetes-preserve-unknown-fields'' = Some True
      then (arbitraryJSONTypeSpec, st)
      else (case NestedString schema ''type'' of
        None \<Rightarrow> (anyTypeSpec, st)
      | Some schemaType \<Rightarrow>
          if schemaType = Array then
            (case GetTypeSpec Title (mapOrNil (NestedMap schema ''items'')) name st of
               (arrayTypeSpec, st') \<Rightarrow> (TypeSpec Array [] None (Some arrayTypeSpec) None, st'))
          else if schemaType = Object then
            (let st1 = AddType Title schema name st
             in case NestedMap schema ''additionalProperties'' of
                  Some additionalProperties \<Rightarrow>
                    (case GetTypeSpec Title additionalProperties name st1 of
                       (additionalPropertiesTypeSpec, st') \<Rightarrow>
                         (TypeSpec Object [] (Some additionalPropertiesTypeSpec) None None, st'))
                | None \<Rightarrow>
                    if NestedBool schema ''additionalProperties'' = Some True
                    then (TypeSpec Object [] (Some anyTypeSpec) None None, st1)
                    else if NestedMap schema ''properties'' = None
                    then (arbitraryJSONTypeSpec, st1)
                    else (TypeSpec Object (''#/types/'' @ name) None None None, st1))
          else if schemaType = Integer \<or> schemaType = Boolean \<or> schemaType = String
                  \<or> schemaType = Number
          then (TypeSpec schemaType [] None None None, st)
          else (anyTypeSpec, st))))))"
| "oneOfLoop Title [] name i oneOfTypeSpecs st =
     (TypeSpec [] [] None None (Some oneOfTypeSpecs), st)"
| "oneOfLoop Title (oneOfSchema # rest) name i oneOfTypeSpecs st =
     (case GetTypeSpec Title oneOfSchema (name @ ''OneOf'' @ Itoa i) st of
        (oneOfTypeSpec, st') \<Rightarrow>
          if isAnyType oneOfTypeSpec then (anyTypeSpec, st')
          else oneOfLoop Title rest name (Suc i) (oneOfTypeSpecs @ [oneOfTypeSpec]) st')"
| "AddType Title schema name st =
     (let properties = NestedMap schema ''properties'';
          description = (case NestedString schema ''description'' of None \<Rightarrow> [] | Some d \<Rightarrow> d);
          schemaType = (case NestedString schema ''type'' of None \<Rightarrow> [] | Some t \<Rightarrow> t);
          required = NestedStringSlice schema ''required'';
          propertySpecs = Allocated (nxt st);
          st1 = st\<lparr>heap := (heap st)(propertySpecs := Map.empty), nxt := Suc (nxt st)\<rparr>;
          st2 = (case properties of
                   None \<Rightarrow> st1
                 | Some ps \<Rightarrow> propertiesLoop Title ps (keys ps) name propertySpecs st1)
      in st2\<lparr>types := (types st2)(name \<mapsto>
            \<lparr>ot_Type = (if properties \<noteq> None \<and> schemaType = [] then Object else schemaType),
             ot_Properties = Some propertySpecs,
             ot_Required = required,
             ot_Description = description\<rparr>)\<rparr>)"
| "propertiesLoop Title properties [] name propertySpecs st = st"
| "propertiesLoop Title properties (propertyName # rest) name propertySpecs st =
     (let propertySchema = mapOrNil (NestedMap properties propertyName);
          propertyDescription =
            (case NestedString propertySchema ''description'' of None \<Rightarrow> [] | Some d \<Rightarrow> d);
          defaultValue =
            (case NestedFieldNoCopy propertySchema ''default'' of None \<Rightarrow> JNull | Some v \<Rightarrow> v)
      in case GetTypeSpec Title propertySchema (name @ Title propertyName) st of
           (typeSpec, st') \<Rightarrow>
             propertiesLoop Title properties rest name propertySpecs
               (st'\<lparr>heap := (heap st')(propertySpecs := (heap st' propertySpecs)(propertyName \<mapsto>
                   \<lparr>ps_TypeSpec = typeSpec, ps_Description = propertyDescription,
                    ps_Const = JNull, ps_Default = defaultValue\<rparr>))\<rparr>))"
  by pat_completeness auto


termination
  apply (relation "measures [callRank, callLength]")
  subgoal by simp
  subgoal by (simp add: schemaRank_NestedMap del: not_None_eq)
  subgoal by (simp add: schemaRank_def del: not_None_eq)
  subgoal by (simp add: rank_found)
  subgoal by (simp add: schemaRank_CombineSchemas)
  subgoal by (simp add: schemaRank_CombineSchemas)
  subgoal by (simp add: rank_oneOf del: height.simps)
  subgoal for Title oneOfSchema rest
    using schemaRank_le[of oneOfSchema] by (simp add: max_def)
  subgoal by (simp add: max_def)
  subgoal for Title schema name st properties description schemaType required propertySpecs st1 ps
    using rank_properties[of schema "''properties''" ps] by (simp del: height.simps)
  subgoal for Title properties propertyName
    using rank_property[of properties propertyName] by simp
  subgoal by simp
  done


declare GetTypeSpec.simps [simp del] AddType.simps [simp del]

section \<open>The Resource Assembler\<close>

text \<open>
  Modelled from the spec: the declarations of \<open>PackageGenerator\<close> and
  \<open>CustomResourceGenerator\<close> are not among the files. Section 6 gives a resource descriptor
  a group, a kind and, per version, a schema node; these are the fields \<open>GetTypes\<close> reads.
  \<open>Schemas\<close> is a Go map from version to schema, ranged over in the order of the list.
  \<open>getToken\<close>, which derives the resource token from group, version and kind, is not
  among the files either: it is a parameter of the model.
\<close>

record CustomResourceGenerator =
  Group :: string
  Kind :: string
  Schemas :: "(string \<times> gomap) list"

record PackageGenerator =
  CustomResourceGenerators :: "CustomResourceGenerator list"

text \<open>
  The statement \<open>types[resourceToken].Properties[key] = value\<close>: it reads the registry (the
  zero value for a missing key), follows the reference to the property map and writes
  there. Go panics on a write to the nil map: \<open>None\<close>.
\<close>

definition setProperty :: "string \<Rightarrow> string \<Rightarrow> PropertySpec \<Rightarrow> state \<Rightarrow> state option" where
  "setProperty resourceToken key val st =
     (case ot_Properties (case types st resourceToken of None \<Rightarrow> zeroSpec | Some spec \<Rightarrow> spec) of
        None \<Rightarrow> None
      | Some a \<Rightarrow> Some (st\<lparr>heap := (heap st)(a := (heap st a)(key \<mapsto> val))\<rparr>))"

text \<open>The body of the inner loop of \<open>GetTypes\<close>, for one version of one resource.\<close>

definition versionStep ::
  "(string \<Rightarrow> string \<Rightarrow> string \<Rightarrow> string) \<Rightarrow> (string \<Rightarrow> string)
    \<Rightarrow> CustomResourceGenerator \<Rightarrow> string \<times> gomap \<Rightarrow> state \<Rightarrow> state option" where
  "versionStep getToken Title crg vs st =
     (case vs of (version, schema) \<Rightarrow>
       (let resourceToken = getToken (Group crg) version (Kind crg);
            foundProperties = (NestedMap schema ''properties'' \<noteq> None);
            st1 = (if foundProperties then AddType Title schema resourceToken st else st);
            preserveUnknownFields =
              (NestedBool schema ''x-kubernetes-preserve-unknown-fields'' = Some True);
            st2 = (if preserveUnknownFields
                   then st1\<lparr>types := (types st1)(resourceToken \<mapsto> emptySpec)\<rparr>
                   else st1)
        in if foundProperties \<or> preserveUnknownFields
           then
             (case setProperty resourceToken ''apiVersion''
                     \<lparr>ps_TypeSpec = TypeSpec String [] None None None, ps_Description = [],
                      ps_Const = JString (Group crg @ ''/'' @ version), ps_Default = JNull\<rparr> st2 of
                None \<Rightarrow> None
              | Some st3 \<Rightarrow>
                 (case setProperty resourceToken ''kind''
                         \<lparr>ps_TypeSpec = TypeSpec String [] None None None, ps_Description = [],
                          ps_Const = JString (Kind crg), ps_Default = JNull\<rparr> st3 of
                    None \<Rightarrow> None
                  | Some st4 \<Rightarrow>
                      setProperty resourceToken ''metadata''
                        \<lparr>ps_TypeSpec = TypeSpec [] objectMetaRef None None None,
                         ps_Description = [], ps_Const = JNull, ps_Default = JNull\<rparr> st4))
           else Some st2))"

fun versionsLoop ::
  "(string \<Rightarrow> string \<Rightarrow> string \<Rightarrow> string) \<Rightarrow> (string \<Rightarrow> string)
    \<Rightarrow> CustomResourceGenerator \<Rightarrow> (string \<times> gomap) list \<Rightarrow> state \<Rightarrow> state option" where
  "versionsLoop getToken Title crg [] st = Some st"
| "versionsLoop getToken Title crg (vs # rest) st =
     (case versionStep getToken Title crg vs st of
        None \<Rightarrow> None
      | Some st' \<Rightarrow> versionsLoop getToken Title crg rest st')"

fun generatorsLoop ::
  "(string \<Rightarrow> string \<Rightarrow> string \<Rightarrow> string) \<Rightarrow> (string \<Rightarrow> string)
    \<Rightarrow> CustomResourceGenerator list \<Rightarrow> state \<Rightarrow> state option" where
  "generatorsLoop getToken Title [] st = Some st"
| "generatorsLoop getToken Title (crg # rest) st =
     (case versionsLoop getToken Title crg (Schemas crg) st of
        None \<Rightarrow> None
      | Some st' \<Rightarrow> generatorsLoop getToken Title rest st')"

text \<open>
  \<open>GetTypes\<close> starts from a new, empty registry; the heap, which holds the map of
  \<open>emptySpec\<close>, is the program's. The Go function returns the registry, \<open>types\<close> of the
  state returned here.
\<close>

definition GetTypes ::
  "(string \<Rightarrow> string \<Rightarrow> string \<Rightarrow> string) \<Rightarrow> (string \<Rightarrow> string)
    \<Rightarrow> PackageGenerator \<Rightarrow> state \<Rightarrow> state option" where
  "GetTypes getToken Title pg st =
     generatorsLoop getToken Title (CustomResourceGenerators pg) (st\<lparr>types := Map.empty\<rparr>)"

text \<open>The state of the program before its first call: the map of \<open>emptySpec\<close> is empty.\<close>

definition initial :: state where
  "initial = \<lparr>types = Map.empty, heap = (\<lambda>a. Map.empty), nxt = 0\<rparr>"

section \<open>The Package Builder\<close>

record ResourceSpec =
  rs_ObjectTypeSpec :: ObjectTypeSpec
  rs_InputProperties :: "addr option"

record PackageSpec =
  pk_Name :: string
  pk_Version :: string
  pk_Types :: "string \<rightharpoonup> ComplexTypeSpec"
  pk_Resources :: "string \<rightharpoonup> ResourceSpec"
  pk_AllowedPackageNames :: "string list"

text \<open>\<open>errors.Wrapf(err, message)\<close>: the cause and the context added to it.\<close>

datatype 'e wrapped = Wrapf 'e string

text \<open>
  The package pointer \<open>genPackage\<close> returns: the new, empty \<open>&pschema.Package{}\<close> or the
  package the validator built.
\<close>

datatype 'p package = EmptyPackage | Imported 'p

text \<open>
  The loop over \<open>resourceTokens\<close>. \<open>Package\<close> stands for
  \<open>tokens.ModuleMember(baseRef).Package()\<close> of the Pulumi SDK, a parameter of the model; the
  SDK asserts that the token has its delimiters, and \<open>None\<close> is the failed assertion, a
  panic.
\<close>

fun resourcesLoop ::
  "(string \<Rightarrow> string option) \<Rightarrow> (string \<rightharpoonup> ComplexTypeSpec) \<Rightarrow> string list
    \<Rightarrow> string set \<times> (string \<rightharpoonup> ResourceSpec)
    \<Rightarrow> (string set \<times> (string \<rightharpoonup> ResourceSpec)) option" where
  "resourcesLoop Package typs [] acc = Some acc"
| "resourcesLoop Package typs (baseRef # rest) (packages, resources) =
     (let complexTypeSpec = (case typs baseRef of None \<Rightarrow> zeroSpec | Some spec \<Rightarrow> spec);
          resources' = resources(baseRef \<mapsto>
            \<lparr>rs_ObjectTypeSpec = complexTypeSpec,
             rs_InputProperties = ot_Properties complexTypeSpec\<rparr>)
      in (case Package baseRef of
            None \<Rightarrow> None
          | Some pkg \<Rightarrow> resourcesLoop Package typs rest (insert pkg packages, resources')))"

text \<open>
  Lines 122 to 145 of \<open>genPackage\<close>: the document handed to the validator. \<open>Version\<close> is a
  package variable that is not among the files, a parameter of the model.
\<close>

definition packageSpec ::
  "(string \<Rightarrow> string option) \<Rightarrow> string \<Rightarrow> (string \<rightharpoonup> ComplexTypeSpec) \<Rightarrow> string list
    \<Rightarrow> PackageSpec option" where
  "packageSpec Package Version typs resourceTokens =
     (case resourcesLoop Package typs resourceTokens ({DefaultName, ''kubernetes''}, Map.empty) of
        None \<Rightarrow> None
      | Some (packages, resources) \<Rightarrow>
          Some \<lparr>pk_Name = DefaultName, pk_Version = Version, pk_Types = typs,
                pk_Resources = resources,
                pk_AllowedPackageNames = sorted_list_of_set packages\<rparr>)"

text \<open>
  \<open>genPackage\<close> returns a package and an error, and it changes the map \<open>types\<close> of its
  caller: the model returns the map too. \<open>ImportSpec\<close> is the validator of the Pulumi SDK,
  a parameter of the model; it reads the property maps through the references of the
  document, and \<open>genPackage\<close> leaves the heap as it is. \<open>None\<close> is a panic.
\<close>

text \<open>The stub object-metadata type that line 115 stores: an object with the nil map.\<close>

definition objectMetaStub :: ComplexTypeSpec where
  "objectMetaStub = \<lparr>ot_Type = ''object'', ot_Properties = None, ot_Required = None,
                      ot_Description = []\<rparr>"

definition genPackage ::
  "(PackageSpec \<Rightarrow> 'e + 'p) \<Rightarrow> (string \<Rightarrow> string option) \<Rightarrow> string
    \<Rightarrow> (string \<rightharpoonup> ComplexTypeSpec) \<Rightarrow> string list \<Rightarrow> bool
    \<Rightarrow> (('p package \<times> 'e wrapped option) \<times> (string \<rightharpoonup> ComplexTypeSpec)) option" where
  "genPackage ImportSpec Package Version typs resourceTokens includeObjectMetaType =
     (let typs1 = (if includeObjectMetaType then typs(objectMetaToken \<mapsto> objectMetaStub)
                   else typs)
      in (case packageSpec Package Version typs1 resourceTokens of
            None \<Rightarrow> None
          | Some pkgSpec \<Rightarrow>
             (case ImportSpec pkgSpec of
                Inl err \<Rightarrow> Some ((EmptyPackage, Some (Wrapf err ''could not import spec'')), typs1)
              | Inr pkg \<Rightarrow>
                  Some ((Imported pkg, None),
                        if includeObjectMetaType then typs1(objectMetaToken := None) else typs1))))"

text \<open>
  Modelled from the spec: the list of resource tokens that the caller hands to
  \<open>genPackage\<close> is built by code that is not among the files. Section 4.3: "Resources whose
  schema has neither \<open>properties\<close> nor the preserve-unknown-fields flag are silently skipped
  (no type is registered, no token appears in the output resource list)".
\<close>

definition registers :: "gomap \<Rightarrow> bool" where
  "registers schema =
     (NestedMap schema ''properties'' \<noteq> None \<or>
      NestedBool schema ''x-kubernetes-preserve-unknown-fields'' = Some True)"

definition ResourceTokens ::
  "(string \<Rightarrow> string \<Rightarrow> string \<Rightarrow> string) \<Rightarrow> PackageGenerator \<Rightarrow> string list" where
  "ResourceTokens getToken pg =
     concat (map (\<lambda>crg. map (\<lambda>vs. getToken (Group crg) (fst vs) (Kind crg))
                          (filter (\<lambda>vs. registers (snd vs)) (Schemas crg)))
               (CustomResourceGenerators pg))"

section \<open>Example inputs\<close>

text \<open>A node with the preserve-unknown-fields flag, a properties map and a \<open>oneOf\<close> list.\<close>

definition exampleFlagAndOneOf :: gomap where
  "exampleFlagAndOneOf =
     Some [(''x-kubernetes-preserve-unknown-fields'', JBool True),
           (''properties'',
              JObject (Some [(''replicas'', JObject (Some [(''type'', JString ''integer'')]))])),
           (''oneOf'', JArray [JObject (Some [(''type'', JString ''string'')])])]"

text \<open>A node with the flag, a type and a properties map.\<close>

definition exampleFlagAndProperties :: gomap where
  "exampleFlagAndProperties =
     Some [(''x-kubernetes-preserve-unknown-fields'', JBool True),
           (''type'', JString ''object''),
           (''properties'',
              JObject (Some [(''replicas'', JObject (Some [(''type'', JString ''integer'')]))]))]"

definition exampleEmptyAllOf :: gomap where
  "exampleEmptyAllOf =
     Some [(''oneOf'', JArray [JObject (Some [(''type'', JString ''string'')])]),
           (''allOf'', JArray [])]"

definition exampleEmptyAnyOf :: gomap where
  "exampleEmptyAnyOf = Some [(''anyOf'', JArray []), (''type'', JString ''string'')]"

text \<open>A validator that rejects every document, and a build with no resource tokens.\<close>

definition failingImport :: "PackageSpec \<Rightarrow> string + unit" where
  "failingImport pkgSpec = Inl ''dangling reference''"

definition noPackage :: "string \<Rightarrow> string option" where
  "noPackage baseRef = None"

definition emptyTypes :: "string \<rightharpoonup> ComplexTypeSpec" where
  "emptyTypes = Map.empty"

section \<open>Properties of the Type Resolver\<close>

lemma GetTypeSpec_nil: "GetTypeSpec Title None name st = (anyTypeSpec, st)"
  by (simp add: GetTypeSpec.simps)

lemma NestedBool_Some_not_nil: "NestedBool schema field = Some b \<Longrightarrow> schema \<noteq> None"
  by (cases schema) (auto simp: NestedBool_def NestedFieldNoCopy_def)

lemma NestedMapSlice_Some_not_nil: "NestedMapSlice schema field = Some ms \<Longrightarrow> schema \<noteq> None"
  by (cases schema) (auto simp: NestedMapSlice_def NestedFieldNoCopy_def)

text \<open>
  C1, as the claim states it, fails: a node with the preserve-unknown-fields flag set to
  true and a properties map that also has a \<open>oneOf\<close> list resolves by the \<open>oneOf\<close> rule,
  which stands earlier in the order, to a union and not to the arbitrary-JSON object map.
\<close>

theorem preserve_unknown_fields_behind_oneOf:
  "NestedBool exampleFlagAndOneOf ''x-kubernetes-preserve-unknown-fields'' = Some True \<and>
   NestedMap exampleFlagAndOneOf ''properties'' =
     Some (Some [(''replicas'', JObject (Some [(''type'', JString ''integer'')]))]) \<and>
   GetTypeSpec id exampleFlagAndOneOf ''Spec'' initial =
     (TypeSpec [] [] None None (Some [TypeSpec ''string'' [] None None None]), initial) \<and>
   TypeSpec [] [] None None (Some [TypeSpec ''string'' [] None None None]) \<noteq> arbitraryJSONTypeSpec"
  by (simp add: exampleFlagAndOneOf_def GetTypeSpec.simps NestedBool_def NestedMap_def
      NestedMapSlice_def NestedString_def NestedFieldNoCopy_def isAnyType_def
      arbitraryJSONTypeSpec_def anyTypeSpec_def)

text \<open>
  C1, amended: for every schema node that has the preserve-unknown-fields flag set to true
  and a properties map, and to which none of the earlier rules applies (the int-or-string
  flag is not true and there is no \<open>oneOf\<close>, \<open>allOf\<close> or \<open>anyOf\<close> list), \<open>GetTypeSpec\<close>
  returns the arbitrary-JSON object map. The registry is returned as it was: the object
  rule, which registers a type, is not reached.
\<close>

theorem preserve_unknown_fields_precedes_object:
  assumes "NestedBool schema ''x-kubernetes-preserve-unknown-fields'' = Some True"
    and "NestedMap schema ''properties'' = Some properties"
    and "NestedBool schema ''x-kubernetes-int-or-string'' \<noteq> Some True"
    and "NestedMapSlice schema ''oneOf'' = None"
    and "NestedMapSlice schema ''allOf'' = None"
    and "NestedMapSlice schema ''anyOf'' = None"
  shows "GetTypeSpec Title schema name st = (arbitraryJSONTypeSpec, st)"
proof -
  have "schema \<noteq> None" using assms(1) by (rule NestedBool_Some_not_nil)
  then show ?thesis using assms by (subst GetTypeSpec.simps) auto
qed

theorem preserve_unknown_fields_precedes_object_witness:
  "NestedBool exampleFlagAndProperties ''x-kubernetes-preserve-unknown-fields'' = Some True \<and>
   NestedMap exampleFlagAndProperties ''properties'' =
     Some (Some [(''replicas'', JObject (Some [(''type'', JString ''integer'')]))]) \<and>
   GetTypeSpec id exampleFlagAndProperties ''Spec'' initial = (arbitraryJSONTypeSpec, initial)"
  using preserve_unknown_fields_precedes_object[of exampleFlagAndProperties
      "Some [(''replicas'', JObject (Some [(''type'', JString ''integer'')]))]" id "''Spec''" initial]
  by (simp add: exampleFlagAndProperties_def NestedBool_def NestedMap_def NestedMapSlice_def
      NestedFieldNoCopy_def)

text \<open>
  C10, as the claim states it, fails: a node whose \<open>allOf\<close> key maps to the empty list and
  that also has a \<open>oneOf\<close> list resolves by the \<open>oneOf\<close> rule to a union;
  \<open>CombineSchemas\<close> is not called and the result is not the any type.
\<close>

theorem empty_allOf_behind_oneOf:
  "NestedMapSlice exampleEmptyAllOf ''allOf'' = Some [] \<and>
   GetTypeSpec id exampleEmptyAllOf ''Spec'' initial =
     (TypeSpec [] [] None None (Some [TypeSpec ''string'' [] None None None]), initial) \<and>
   TypeSpec [] [] None None (Some [TypeSpec ''string'' [] None None None]) \<noteq> anyTypeSpec"
  by (simp add: exampleEmptyAllOf_def GetTypeSpec.simps NestedBool_def NestedMap_def
      NestedMapSlice_def NestedString_def NestedFieldNoCopy_def isAnyType_def anyTypeSpec_def)

text \<open>
  C10, amended: for every schema node that reaches the \<open>allOf\<close> rule with an empty list
  (the int-or-string flag is not true and there is no \<open>oneOf\<close> list), or the \<open>anyOf\<close> rule
  with an empty list (and there is no \<open>allOf\<close> list either), \<open>CombineSchemas\<close> of zero
  schemas is the nil schema, \<open>GetTypeSpec\<close> resolves that to the any type, and so the
  node resolves to the any type, with the registry as it was.
\<close>

theorem empty_combination_resolves_to_any:
  assumes "NestedBool schema ''x-kubernetes-int-or-string'' \<noteq> Some True"
    and "NestedMapSlice schema ''oneOf'' = None"
    and "NestedMapSlice schema ''allOf'' = Some [] \<or>
         (NestedMapSlice schema ''allOf'' = None \<and> NestedMapSlice schema ''anyOf'' = Some [])"
  shows "CombineSchemas True [] = None \<and> CombineSchemas False [] = None \<and>
         GetTypeSpec Title (CombineSchemas True []) name st = (anyTypeSpec, st) \<and>
         GetTypeSpec Title (CombineSchemas False []) name st = (anyTypeSpec, st) \<and>
         GetTypeSpec Title schema name st = (anyTypeSpec, st)"
proof -
  have c: "CombineSchemas True [] = None" "CombineSchemas False [] = None"
    by (simp_all add: CombineSchemas_def)
  have "schema \<noteq> None" using assms(3) by (auto dest: NestedMapSlice_Some_not_nil)
  then have "GetTypeSpec Title schema name st = (anyTypeSpec, st)"
    using assms c by (subst GetTypeSpec.simps) (auto simp: GetTypeSpec_nil)
  then show ?thesis using c by (simp add: GetTypeSpec_nil)
qed

theorem empty_combination_resolves_to_any_witness:
  "NestedMapSlice exampleEmptyAnyOf ''anyOf'' = Some [] \<and>
   GetTypeSpec id exampleEmptyAnyOf ''Spec'' initial = (anyTypeSpec, initial)"
  using empty_combination_resolves_to_any[of exampleEmptyAnyOf id "''Spec''" initial]
  by (simp add: exampleEmptyAnyOf_def NestedBool_def NestedMapSlice_def NestedFieldNoCopy_def)

section \<open>Properties of the Package Builder\<close>

text \<open>
  C8, as the claim states it, fails: when the validator rejects the document, the context
  that \<open>genPackage\<close> adds to the validator's error is "could not import spec", not "could
  not assemble package".
\<close>

theorem genPackage_error_context:
  "failingImport (the (packageSpec noPackage ''1.0'' emptyTypes [])) = Inl ''dangling reference'' \<and>
   map_option fst (genPackage failingImport noPackage ''1.0'' emptyTypes [] False) =
     Some (EmptyPackage, Some (Wrapf ''dangling reference'' ''could not import spec'')) \<and>
   Wrapf ''dangling reference'' ''could not import spec'' \<noteq>
     Wrapf ''dangling reference'' ''could not assemble package''"
  by (simp add: genPackage_def packageSpec_def failingImport_def)

text \<open>
  C8, amended: whenever the validator rejects the combined package document,
  \<open>genPackage\<close> returns a single error value that wraps the validator's diagnostic with
  the added context "could not import spec", together with the empty package value: no
  part of a package document is returned.
\<close>

theorem genPackage_wraps_validation_error:
  assumes "packageSpec Package Version
             (if includeObjectMetaType then typs(objectMetaToken \<mapsto> objectMetaStub) else typs)
             resourceTokens = Some pkgSpec"
    and "ImportSpec pkgSpec = Inl err"
  shows "genPackage ImportSpec Package Version typs resourceTokens includeObjectMetaType =
           Some ((EmptyPackage, Some (Wrapf err ''could not import spec'')),
                 if includeObjectMetaType then typs(objectMetaToken \<mapsto> objectMetaStub)
                 else typs)"
  using assms by (cases includeObjectMetaType) (simp_all add: genPackage_def)

theorem genPackage_wraps_validation_error_witness:
  "packageSpec noPackage ''1.0'' emptyTypes [] =
     Some \<lparr>pk_Name = ''crds'', pk_Version = ''1.0'', pk_Types = emptyTypes,
           pk_Resources = Map.empty, pk_AllowedPackageNames = [''crds'', ''kubernetes'']\<rparr> \<and>
   genPackage failingImport noPackage ''1.0'' emptyTypes [] False =
     Some ((EmptyPackage, Some (Wrapf ''dangling reference'' ''could not import spec'')),
           emptyTypes)"
  using genPackage_wraps_validation_error[of noPackage "''1.0''" False emptyTypes "[]" _
      failingImport "''dangling reference''"]
  by (simp add: packageSpec_def failingImport_def)

text \<open>
  C5, at a failing input: with \<open>includeObjectMetaType\<close> true and a validator that rejects
  the document, \<open>genPackage\<close> returns at line 149, before the \<open>delete\<close> of line 153. The
  registry that was empty now holds the stub under the object-metadata token.
\<close>

theorem genPackage_error_leaves_stub:
  "genPackage failingImport noPackage ''1.0'' emptyTypes [] True =
     Some ((EmptyPackage, Some (Wrapf ''dangling reference'' ''could not import spec'')),
           emptyTypes(objectMetaToken \<mapsto> objectMetaStub)) \<and>
   (emptyTypes(objectMetaToken \<mapsto> objectMetaStub)) objectMetaToken \<noteq> emptyTypes objectMetaToken"
  by (simp add: genPackage_def packageSpec_def failingImport_def emptyTypes_def)

end
